theory Spec2Isabelle
  imports Main
begin

section \<open>Strings\<close>

text \<open>
  The handlers work on JavaScript strings. A string is modelled as a \<open>char list\<close>,
  a character being a code point below 256; the three string operations the intent
  parser uses are \<open>toLowerCase\<close>, \<open>trim\<close> and \<open>includes\<close> (here \<open>includes_str\<close>).
  On these code points \<open>toLowerCase\<close> maps \<open>A\<close>..\<open>Z\<close> and the letters 192 to 222
  (the multiplication sign 215 apart) to the code point 32 above and keeps every other
  character, and \<open>trim\<close> strips the white space and line terminators TAB, LF, VT, FF,
  CR, SP and the no-break space 160.
\<close>

definition lower_char :: "char \<Rightarrow> char" where
  "lower_char c =
     (let n = (of_char c :: nat) in
      if (65 \<le> n \<and> n \<le> 90) \<or> (192 \<le> n \<and> n \<le> 222 \<and> n \<noteq> 215) then char_of (n + 32) else c)"

definition toLowerCase :: "string \<Rightarrow> string" where
  "toLowerCase s = map lower_char s"

definition is_space :: "char \<Rightarrow> bool" where
  "is_space c = (let n = (of_char c :: nat) in (9 \<le> n \<and> n \<le> 13) \<or> n = 32 \<or> n = 160)"

definition trim :: "string \<Rightarrow> string" where
  "trim s = rev (dropWhile is_space (rev (dropWhile is_space s)))"

fun startsWith :: "string \<Rightarrow> string \<Rightarrow> bool" where
  "startsWith s [] = True"
| "startsWith [] (p # ps) = False"
| "startsWith (c # cs) (p # ps) = (c = p \<and> startsWith cs ps)"

fun includes_str :: "string \<Rightarrow> string \<Rightarrow> bool" where
  "includes_str [] pat = (pat = [])"
| "includes_str (c # cs) pat = (startsWith (c # cs) pat \<or> includes_str cs pat)"

section \<open>The intent parser: \<open>src/pages/api/ai-search-parser.ts\<close>\<close>

text \<open>
  \<open>AISearchResult\<close> is the interface of the same name: a path and an object of
  string-valued parameters. The parameter object of a literal is an association list in
  the order the literal writes its properties.
\<close>

record AISearchResult =
  path :: string
  params :: "(string \<times> string) list"

text \<open>
  \<open>mockLLM_Parse\<close> (lines 23 to 59). Its first statement assigns the lowercased,
  trimmed text to the parameter \<open>searchTerm\<close> itself, so every later use of
  \<open>searchTerm\<close>, the \<open>query\<close> of the last branch included, reads the normalised text.
\<close>

definition mockLLM_Parse :: "string \<Rightarrow> AISearchResult" where
  "mockLLM_Parse searchTerm0 =
     (let searchTerm = trim (toLowerCase searchTerm0) in
      if includes_str searchTerm ''mind-bending'' \<or> includes_str searchTerm ''sci-fi'' then
        \<lparr>path = ''discover/movie'',
         params = [(''with_genres'', ''878''), (''vote_average.gte'', ''7.5'')]\<rparr>
      else if includes_str searchTerm ''best of 2024'' \<or> includes_str searchTerm ''newest hits'' then
        \<lparr>path = ''discover/movie'',
         params = [(''vote_average.gte'', ''7''), (''primary_release_year'', ''2024'')]\<rparr>
      else if includes_str searchTerm ''best'' \<or> includes_str searchTerm ''top rated'' then
        \<lparr>path = ''discover/movie'',
         params = [(''vote_average.gte'', ''8.5''), (''sort_by'', ''vote_count.desc'')]\<rparr>
      else
        \<lparr>path = ''search/movie'', params = [(''query'', searchTerm)]\<rparr>)"

text \<open>
  Values of the language. \<open>json\<close> is a value that \<open>JSON.parse\<close> can return (a number
  carries its literal, which no code here inspects); \<open>undefined\<close> is \<open>None\<close> of
  \<open>json option\<close>. An exception is a value of \<open>js_error\<close>, and a computation that can
  throw returns \<open>js_error + 'a\<close>.
\<close>

datatype json =
    JNull
  | JBool bool
  | JNumber string
  | JString string
  | JArray "json list"
  | JObject "(string \<times> json) list"

datatype js_error =
    TypeError
  | SyntaxError
  | Error string
  | RemoteFailure

text \<open>The \<open>typeof\<close> operator: \<open>null\<close> and arrays are of type \<open>object\<close>.\<close>

fun typeof :: "json option \<Rightarrow> string" where
  "typeof None = ''undefined''"
| "typeof (Some JNull) = ''object''"
| "typeof (Some (JBool b)) = ''boolean''"
| "typeof (Some (JNumber n)) = ''number''"
| "typeof (Some (JString s)) = ''string''"
| "typeof (Some (JArray xs)) = ''object''"
| "typeof (Some (JObject kvs)) = ''object''"

text \<open>
  Reading a property \<open>v.name\<close>, for the two names read here (\<open>path\<close> and \<open>params\<close>,
  which no prototype defines): a \<open>TypeError\<close> on \<open>null\<close>, the own property of an
  object, \<open>undefined\<close> on every other value.
\<close>

fun get_prop :: "json \<Rightarrow> string \<Rightarrow> js_error + json option" where
  "get_prop JNull name = Inl TypeError"
| "get_prop (JObject kvs) name = Inr (map_of kvs name)"
| "get_prop v name = Inr None"

text \<open>Truthiness of a value of type \<open>string | undefined\<close>.\<close>

fun truthy :: "string option \<Rightarrow> bool" where
  "truthy None = False"
| "truthy (Some s) = (s \<noteq> [])"

text \<open>The JavaScript object that an \<open>AISearchResult\<close> is at run time.\<close>

definition result_value :: "AISearchResult \<Rightarrow> json" where
  "result_value r =
     JObject [(''path'', JString (path r)),
              (''params'', JObject (map (\<lambda>(k, v). (k, JString v)) (params r)))]"




text \<open>
  The remote call \<open>aiClient.models.generateContent\<close> either rejects or resolves to a
  response whose \<open>text\<close> is a string or \<open>undefined\<close>. The request is fixed apart from
  the search term embedded in the prompt, so the service is a function of the search term.
\<close>

datatype gen_outcome =
    CallRejected
  | Responded "string option"

text \<open>
  The body of the \<open>try\<close> block of \<open>realLLM_Parse\<close> (lines 104 to 126). \<open>JSON_parse\<close>
  is the built-in parser, \<open>None\<close> where it throws a \<open>SyntaxError\<close>.
\<close>

definition no_text_message :: string where
  "no_text_message =
     ''Gemini API failed to return structured text content, possibly due to a safety block or internal error.''"

definition try_generate ::
  "(string \<Rightarrow> json option) \<Rightarrow> (string \<Rightarrow> gen_outcome) \<Rightarrow> string \<Rightarrow> js_error + json" where
  "try_generate JSON_parse generateContent searchTerm =
     (case generateContent searchTerm of
        CallRejected \<Rightarrow> Inl RemoteFailure
      | Responded text \<Rightarrow>
          (case text of
             None \<Rightarrow> Inl (Error no_text_message)
           | Some t \<Rightarrow>
               if \<not> truthy (Some t) then Inl (Error no_text_message)
               else
                 (case JSON_parse (trim t) of
                    None \<Rightarrow> Inl SyntaxError
                  | Some parsedResult \<Rightarrow>
                      (case get_prop parsedResult ''path'' of
                         Inl e \<Rightarrow> Inl e
                       | Inr p \<Rightarrow>
                           if typeof p \<noteq> ''string''
                           then Inl (Error ''AI response structure is invalid.'')
                           else
                             (case get_prop parsedResult ''params'' of
                                Inl e \<Rightarrow> Inl e
                              | Inr q \<Rightarrow>
                                  if typeof q \<noteq> ''object''
                                  then Inl (Error ''AI response structure is invalid.'')
                                  else Inr parsedResult)))))"

text \<open>
  \<open>realLLM_Parse\<close> (lines 62 to 136). \<open>AI_API_KEY\<close> is the module constant read from
  the environment. The client constructor, called with a key and nothing else, stores the
  key and does not throw. The \<open>catch\<close> clause turns every exception of the \<open>try\<close> block
  into the plain search for the search term as it was passed.
\<close>

definition realLLM_Parse ::
  "(string \<Rightarrow> json option) \<Rightarrow> string option \<Rightarrow> (string \<Rightarrow> gen_outcome) \<Rightarrow> string
     \<Rightarrow> js_error + json" where
  "realLLM_Parse JSON_parse AI_API_KEY generateContent searchTerm =
     (if \<not> truthy AI_API_KEY then Inr (result_value (mockLLM_Parse searchTerm))
      else
        (case try_generate JSON_parse generateContent searchTerm of
           Inr parsedResult \<Rightarrow> Inr parsedResult
         | Inl e \<Rightarrow>
             Inr (result_value \<lparr>path = ''search/movie'', params = [(''query'', searchTerm)]\<rparr>)))"

section \<open>The catalog gateway: \<open>src/pages/api/tmdb-proxy.ts\<close>\<close>

text \<open>
  The file holds two handlers. The first (lines 6 to 58) forwards the \<open>query\<close> parameter
  only; the second (lines 66 to 126), under the header comment that names the file,
  forwards every parameter. They share everything after the outbound URL is built.

  A value of \<open>req.query\<close> is a string or a list of strings; \<open>req.query\<close> itself is an
  object, here the list of its entries in the order of \<open>Object.entries\<close>.
\<close>

datatype qvalue =
    Single string
  | Multi "string list"

record request =
  req_method :: string
  query :: "(string \<times> qvalue) list"

text \<open>
  A URL is its address up to the query string and the list of its search parameters.
  \<open>sp_set\<close> is \<open>URLSearchParams.set\<close>: the first entry of that name takes the value
  and the later ones go; with no such entry the pair is appended. \<open>sp_get\<close> is
  \<open>URLSearchParams.get\<close>, the value of the first entry of that name.
\<close>

record url =
  address :: string
  searchParams :: "(string \<times> string) list"

fun sp_set :: "string \<Rightarrow> string \<Rightarrow> (string \<times> string) list \<Rightarrow> (string \<times> string) list" where
  "sp_set name v [] = [(name, v)]"
| "sp_set name v ((k, w) # rest) =
     (if k = name then (name, v) # filter (\<lambda>e. fst e \<noteq> name) rest
      else (k, w) # sp_set name v rest)"

definition sp_get :: "(string \<times> string) list \<Rightarrow> string \<Rightarrow> string option" where
  "sp_get sp name = map_of sp name"

text \<open>
  An outbound call, the provider's answer, and what a handler has done when it returns:
  the response it sent and the calls it made, in order. \<open>json_body\<close> is what
  \<open>tmdbResponse.json()\<close> resolves to, \<open>None\<close> where it rejects because the body is not
  JSON. \<open>ok\<close> is the \<open>ok\<close> property of a fetch response.
\<close>

record outbound =
  target :: url
  out_method :: string
  headers :: "(string \<times> string) list"

record provider_response =
  status :: nat
  json_body :: "json option"

datatype fetch_outcome =
    NetworkFailure
  | Answered provider_response

record api_response =
  res_status :: nat
  res_body :: json

record handled =
  response :: api_response
  calls :: "outbound list"

definition ok :: "provider_response \<Rightarrow> bool" where
  "ok r = (200 \<le> status r \<and> status r \<le> 299)"

fun string_of_nat :: "nat \<Rightarrow> string" where
  "string_of_nat n =
     (if n < 10 then [char_of (48 + n)]
      else string_of_nat (n div 10) @ [char_of (48 + n mod 10)])"

declare string_of_nat.simps [simp del]

definition message :: "string \<Rightarrow> json" where
  "message m = JObject [(''message'', JString m)]"

text \<open>
  Lines 102 to 125 (and 34 to 57): the one outbound call and the mapping of its outcome.
  The body is read as JSON before the status is looked at, inside the \<open>try\<close> block, so a
  body that is not JSON ends in the \<open>catch\<close> clause whatever the status is.
\<close>

definition relay :: "(outbound \<Rightarrow> fetch_outcome) \<Rightarrow> string \<Rightarrow> url \<Rightarrow> handled" where
  "relay fetch token tmdbUrl =
     (let call = \<lparr>target = tmdbUrl, out_method = ''GET'',
                  headers = [(''Authorization'', ''Bearer '' @ token),
                             (''accept'', ''application/json'')]\<rparr>;
          network_error =
            \<lparr>res_status = 500,
             res_body = message ''Server network error when connecting to TMDB.''\<rparr>
      in case fetch call of
           NetworkFailure \<Rightarrow> \<lparr>response = network_error, calls = [call]\<rparr>
         | Answered tmdbResponse \<Rightarrow>
             (case json_body tmdbResponse of
                None \<Rightarrow> \<lparr>response = network_error, calls = [call]\<rparr>
              | Some data \<Rightarrow>
                  if \<not> ok tmdbResponse then
                    \<lparr>response =
                       \<lparr>res_status = status tmdbResponse,
                        res_body =
                          JObject [(''message'',
                                    JString (''TMDB API failed with status ''
                                             @ string_of_nat (status tmdbResponse) @ ''.'')),
                                   (''details'', data)]\<rparr>,
                     calls = [call]\<rparr>
                  else \<lparr>response = \<lparr>res_status = 200, res_body = data\<rparr>, calls = [call]\<rparr>))"

text \<open>
  Lines 94 to 100: the loop over the entries of \<open>rest\<close>. An empty string is falsy and
  is skipped; a list is truthy, and its first element is taken (\<open>undefined\<close>, which
  \<open>set\<close> writes as the text \<open>undefined\<close>, when the list is empty).
\<close>

fun truthy_q :: "qvalue \<Rightarrow> bool" where
  "truthy_q (Single s) = (s \<noteq> [])"
| "truthy_q (Multi vs) = True"

fun finalValue :: "qvalue \<Rightarrow> string" where
  "finalValue (Single s) = s"
| "finalValue (Multi []) = ''undefined''"
| "finalValue (Multi (v # vs)) = v"

fun copy_rest :: "(string \<times> qvalue) list \<Rightarrow> (string \<times> string) list \<Rightarrow> (string \<times> string) list" where
  "copy_rest [] sp = sp"
| "copy_rest ((key, v) # es) sp =
     copy_rest es (if truthy_q v then sp_set key (finalValue v) sp else sp)"

definition set_defaults :: "(string \<times> string) list \<Rightarrow> (string \<times> string) list" where
  "set_defaults sp =
     sp_set ''include_adult'' ''false'' (sp_set ''page'' ''1'' (sp_set ''language'' ''en-US'' sp))"

definition rest_of :: "(string \<times> qvalue) list \<Rightarrow> (string \<times> qvalue) list" where
  "rest_of q = filter (\<lambda>e. fst e \<noteq> ''path'') q"

text \<open>
  \<open>handler\<close>, lines 66 to 126. \<open>URL_new\<close> is \<open>new URL(path, TMDB_API_BASE_URL)\<close>,
  \<open>None\<close> where the constructor throws a \<open>TypeError\<close>; the call stands outside the
  \<open>try\<close> block, so the exception leaves the handler. The fixed parameters are set first
  (lines 89 to 91), then the entries of \<open>rest\<close> (lines 94 to 100).
\<close>

definition config_error :: api_response where
  "config_error =
     \<lparr>res_status = 500,
      res_body = message ''Server configuration error: TMDB_ACCESS_TOKEN is missing.''\<rparr>"

definition handler ::
  "(string \<Rightarrow> url option) \<Rightarrow> string option \<Rightarrow> (outbound \<Rightarrow> fetch_outcome) \<Rightarrow> request
     \<Rightarrow> js_error + handled" where
  "handler URL_new TMDB_TOKEN fetch req =
     (if req_method req \<noteq> ''GET'' then
        Inr \<lparr>response = \<lparr>res_status = 405, res_body = message ''Method Not Allowed''\<rparr>,
             calls = []\<rparr>
      else
        (case TMDB_TOKEN of
           None \<Rightarrow> Inr \<lparr>response = config_error, calls = []\<rparr>
         | Some token \<Rightarrow>
             if \<not> truthy (Some token) then Inr \<lparr>response = config_error, calls = []\<rparr>
             else
               (case map_of (query req) ''path'' of
                  Some (Single path_param) \<Rightarrow>
                    (case URL_new path_param of
                       None \<Rightarrow> Inl TypeError
                     | Some tmdbUrl \<Rightarrow>
                         Inr (relay fetch token
                                (tmdbUrl\<lparr>searchParams :=
                                   copy_rest (rest_of (query req))
                                     (set_defaults (searchParams tmdbUrl))\<rparr>)))
                | _ \<Rightarrow>
                    Inr \<lparr>response =
                           \<lparr>res_status = 400,
                            res_body = message ''Missing or invalid \"path\" query parameter.''\<rparr>,
                         calls = []\<rparr>)))"

text \<open>
  The first handler, lines 6 to 58: \<open>query\<close> is set when it is a non-empty string
  (lines 26 to 28), then the fixed parameters (lines 30 to 32). No other parameter of the
  request is read.
\<close>

definition handler_1 ::
  "(string \<Rightarrow> url option) \<Rightarrow> string option \<Rightarrow> (outbound \<Rightarrow> fetch_outcome) \<Rightarrow> request
     \<Rightarrow> js_error + handled" where
  "handler_1 URL_new TMDB_TOKEN fetch req =
     (if req_method req \<noteq> ''GET'' then
        Inr \<lparr>response = \<lparr>res_status = 405, res_body = message ''Method Not Allowed''\<rparr>,
             calls = []\<rparr>
      else
        (case TMDB_TOKEN of
           None \<Rightarrow> Inr \<lparr>response = config_error, calls = []\<rparr>
         | Some token \<Rightarrow>
             if \<not> truthy (Some token) then Inr \<lparr>response = config_error, calls = []\<rparr>
             else
               (case map_of (query req) ''path'' of
                  Some (Single path_param) \<Rightarrow>
                    (case URL_new path_param of
                       None \<Rightarrow> Inl TypeError
                     | Some tmdbUrl \<Rightarrow>
                         Inr (relay fetch token
                                (tmdbUrl\<lparr>searchParams :=
                                   set_defaults
                                     (case map_of (query req) ''query'' of
                                        Some (Single q) \<Rightarrow>
                                          if q \<noteq> [] then sp_set ''query'' q (searchParams tmdbUrl)
                                          else searchParams tmdbUrl
                                      | _ \<Rightarrow> searchParams tmdbUrl)\<rparr>)))
                | _ \<Rightarrow>
                    Inr \<lparr>response =
                           \<lparr>res_status = 400,
                            res_body = message ''Missing or invalid \"path\" query parameter.''\<rparr>,
                         calls = []\<rparr>)))"

section \<open>Environments and requests of the examples\<close>

text \<open>
  The handlers take their environment as arguments: the URL constructor, the credential,
  the network, the JSON parser, the language-model service. The concrete inputs below
  fix one environment each. \<open>URL_plain\<close> resolves a relative path that carries no query
  string against the base address; \<open>fetch_answer r\<close> is a provider that answers \<open>r\<close>;
  \<open>JSON_parse_null_params\<close> and \<open>JSON_parse_number_param\<close> parse the one text
  each is used on; \<open>respond_text t\<close> is a service whose response text is \<open>t\<close>, and
  \<open>reject_call\<close> one whose call rejects.
  \<open>outbound_params\<close> reads the search parameters of the calls a handler made.
\<close>

definition URL_plain :: "string \<Rightarrow> url option" where
  "URL_plain p = Some \<lparr>address = ''https://api.themoviedb.org/3/'' @ p, searchParams = []\<rparr>"

definition fetch_answer :: "provider_response \<Rightarrow> outbound \<Rightarrow> fetch_outcome" where
  "fetch_answer r call = Answered r"

definition get_request :: "(string \<times> qvalue) list \<Rightarrow> request" where
  "get_request q = \<lparr>req_method = ''GET'', query = q\<rparr>"

fun outbound_params :: "js_error + handled \<Rightarrow> (string \<times> string) list list" where
  "outbound_params (Inl e) = []"
| "outbound_params (Inr h) = map (searchParams \<circ> target) (calls h)"

definition JSON_parse_null_params :: "string \<Rightarrow> json option" where
  "JSON_parse_null_params t =
     (if t = ''{\"path\":\"search/movie\",\"params\":null}''
      then Some (JObject [(''path'', JString ''search/movie''), (''params'', JNull)])
      else None)"

definition respond_text :: "string \<Rightarrow> string \<Rightarrow> gen_outcome" where
  "respond_text t searchTerm = Responded (Some t)"



section \<open>Properties of the intent parser\<close>

subsection \<open>The keyword heuristic\<close>

text \<open>
  When no rule matches, the result is the plain search for the normalised text.
\<close>

lemma mockLLM_Parse_no_rule:
  assumes "\<not> includes_str (trim (toLowerCase searchTerm)) ''mind-bending''"
    and "\<not> includes_str (trim (toLowerCase searchTerm)) ''sci-fi''"
    and "\<not> includes_str (trim (toLowerCase searchTerm)) ''best of 2024''"
    and "\<not> includes_str (trim (toLowerCase searchTerm)) ''newest hits''"
    and "\<not> includes_str (trim (toLowerCase searchTerm)) ''best''"
    and "\<not> includes_str (trim (toLowerCase searchTerm)) ''top rated''"
  shows "mockLLM_Parse searchTerm =
           \<lparr>path = ''search/movie'', params = [(''query'', trim (toLowerCase searchTerm))]\<rparr>"
  using assms by (simp add: mockLLM_Parse_def)

text \<open>
  Claim C2. For an input that matches none of the keyword rules the heuristic should
  return the plain search with the query equal to the input as it was passed. The input
  \<open>Dune\<close> matches no rule, and the query of the result is \<open>dune\<close>: the normalised
  text, not the input.
\<close>

theorem mockLLM_Parse_query_normalised:
  "mockLLM_Parse ''Dune'' = \<lparr>path = ''search/movie'', params = [(''query'', ''dune'')]\<rparr> \<and>
   mockLLM_Parse ''Dune'' \<noteq> \<lparr>path = ''search/movie'', params = [(''query'', ''Dune'')]\<rparr>"
  by code_simp

text \<open>
  Claim C5. For every search string whose lowercased, trimmed form contains \<open>sci-fi\<close>,
  the heuristic returns the path \<open>discover/movie\<close> with exactly the two parameters
  \<open>with_genres = 878\<close> and \<open>vote_average.gte = 7.5\<close>. (Such a string is not empty.)
\<close>

theorem mockLLM_Parse_sci_fi:
  assumes "includes_str (trim (toLowerCase searchTerm)) ''sci-fi''"
  shows "mockLLM_Parse searchTerm =
           \<lparr>path = ''discover/movie'',
            params = [(''with_genres'', ''878''), (''vote_average.gte'', ''7.5'')]\<rparr>"
  using assms by (simp add: mockLLM_Parse_def)

theorem mockLLM_Parse_sci_fi_witness:
  "includes_str (trim (toLowerCase ''  Best SCI-FI of the 80s '')) ''sci-fi'' \<and>
   mockLLM_Parse ''  Best SCI-FI of the 80s '' =
     \<lparr>path = ''discover/movie'',
      params = [(''with_genres'', ''878''), (''vote_average.gte'', ''7.5'')]\<rparr>"
proof -
  have h: "includes_str (trim (toLowerCase ''  Best SCI-FI of the 80s '')) ''sci-fi''"
    by code_simp
  from h mockLLM_Parse_sci_fi [OF h] show ?thesis by (rule conjI)
qed

text \<open>
  Claim C6. For the input \<open>best of 2024\<close> the heuristic returns the result of the second
  rule (\<open>vote_average.gte = 7\<close>, \<open>primary_release_year = 2024\<close>) and not the result of the
  third rule, whose keyword \<open>best\<close> the input contains as well.
\<close>

theorem mockLLM_Parse_best_of_2024:
  "mockLLM_Parse ''best of 2024'' =
     \<lparr>path = ''discover/movie'',
      params = [(''vote_average.gte'', ''7''), (''primary_release_year'', ''2024'')]\<rparr> \<and>
   mockLLM_Parse ''best of 2024'' \<noteq>
     \<lparr>path = ''discover/movie'',
      params = [(''vote_average.gte'', ''8.5''), (''sort_by'', ''vote_count.desc'')]\<rparr>"
  by code_simp

text \<open>
  Claim C10. For every input the path of the heuristic's result is \<open>search/movie\<close> or
  \<open>discover/movie\<close>; a \<open>search/movie\<close> result has a \<open>query\<close> parameter and a
  \<open>discover/movie\<close> result has none.
\<close>

theorem mockLLM_Parse_route_invariant:
  "(path (mockLLM_Parse searchTerm) = ''search/movie'' \<or>
    path (mockLLM_Parse searchTerm) = ''discover/movie'') \<and>
   (path (mockLLM_Parse searchTerm) = ''search/movie'' \<longrightarrow>
      ''query'' \<in> set (map fst (params (mockLLM_Parse searchTerm)))) \<and>
   (path (mockLLM_Parse searchTerm) = ''discover/movie'' \<longrightarrow>
      ''query'' \<notin> set (map fst (params (mockLLM_Parse searchTerm))))"
  by (simp add: mockLLM_Parse_def Let_def)

theorem mockLLM_Parse_route_invariant_witness:
  "(path (mockLLM_Parse ''Dune'') = ''search/movie'' \<and>
      ''query'' \<in> set (map fst (params (mockLLM_Parse ''Dune'')))) \<and>
   (path (mockLLM_Parse ''top rated'') = ''discover/movie'' \<and>
      ''query'' \<notin> set (map fst (params (mockLLM_Parse ''top rated''))))"
proof -
  have a: "path (mockLLM_Parse ''Dune'') = ''search/movie''" by code_simp
  have b: "path (mockLLM_Parse ''top rated'') = ''discover/movie''" by code_simp
  from a b mockLLM_Parse_route_invariant [of "''Dune''"]
    mockLLM_Parse_route_invariant [of "''top rated''"]
  show ?thesis by blast
qed

subsection \<open>Containment, trimming and case\<close>

lemma startsWith_iff: "startsWith s pat \<longleftrightarrow> (\<exists>post. s = pat @ post)"
  by (induction s pat rule: startsWith.induct) auto

lemma includes_str_iff: "includes_str s pat \<longleftrightarrow> (\<exists>pre post. s = pre @ pat @ post)"
proof (induction s)
  case Nil
  then show ?case by auto
next
  case (Cons c cs)
  show ?case
  proof
    assume "includes_str (c # cs) pat"
    then consider "startsWith (c # cs) pat" | "includes_str cs pat" by auto
    then show "\<exists>pre post. c # cs = pre @ pat @ post"
    proof cases
      case 1
      then obtain post where "c # cs = pat @ post" by (auto simp: startsWith_iff)
      then have "c # cs = [] @ pat @ post" by simp
      then show ?thesis by blast
    next
      case 2
      with Cons.IH obtain pre post where "cs = pre @ pat @ post" by blast
      then have "c # cs = (c # pre) @ pat @ post" by simp
      then show ?thesis by blast
    qed
  next
    assume "\<exists>pre post. c # cs = pre @ pat @ post"
    then obtain pre post where e: "c # cs = pre @ pat @ post" by blast
    show "includes_str (c # cs) pat"
    proof (cases pre)
      case Nil
      with e have "startsWith (c # cs) pat" by (auto simp: startsWith_iff)
      then show ?thesis by simp
    next
      case (Cons d ds)
      with e have "cs = ds @ pat @ post" by simp
      with Cons.IH have "includes_str cs pat" by blast
      then show ?thesis by simp
    qed
  qed
qed

lemma dropWhile_keeps_word:
  assumes "w \<noteq> []" and "\<not> P (hd w)"
  shows "\<exists>pre'. dropWhile P (pre @ w @ post) = pre' @ w @ post"
proof (induction pre)
  case Nil
  from assms obtain x xs where "w = x # xs" "\<not> P x" by (cases w) auto
  then have "dropWhile P ([] @ w @ post) = [] @ w @ post" by simp
  then show ?case by blast
next
  case (Cons a pre)
  show ?case
  proof (cases "P a")
    case True
    with Cons show ?thesis by simp
  next
    case False
    then have "dropWhile P ((a # pre) @ w @ post) = (a # pre) @ w @ post" by simp
    then show ?thesis by blast
  qed
qed

lemma trim_keeps_word:
  assumes "w \<noteq> []" and "\<not> is_space (hd w)" and "\<not> is_space (last w)"
  shows "\<exists>pre' post'. trim (pre @ w @ post) = pre' @ w @ post'"
proof -
  from dropWhile_keeps_word [where P = is_space and pre = pre and post = post, OF assms(1,2)]
  obtain pre'
    where a: "dropWhile is_space (pre @ w @ post) = pre' @ w @ post" by blast
  from assms have r: "rev w \<noteq> []" "\<not> is_space (hd (rev w))" by (simp_all add: hd_rev)
  from dropWhile_keeps_word [where P = is_space and pre = "rev post" and post = "rev pre'", OF r]
  obtain post'
    where b: "dropWhile is_space (rev post @ rev w @ rev pre') = post' @ rev w @ rev pre'" by blast
  from a b have "trim (pre @ w @ post) = pre' @ w @ rev post'" by (simp add: trim_def)
  then show ?thesis by blast
qed

text \<open>
  The keyword in any mix of upper and lower case, with any text around it: white space is
  trimmed at the two ends of the whole text only, so the keyword stays.
\<close>

lemma mockLLM_Parse_sci_fi_any_case:
  assumes "toLowerCase w = ''sci-fi''"
  shows "mockLLM_Parse (pre @ w @ post) =
           \<lparr>path = ''discover/movie'',
            params = [(''with_genres'', ''878''), (''vote_average.gte'', ''7.5'')]\<rparr>"
proof -
  have l: "toLowerCase (pre @ w @ post) = toLowerCase pre @ ''sci-fi'' @ toLowerCase post"
    using assms by (simp add: toLowerCase_def)
  have "\<not> is_space (hd ''sci-fi'')" "\<not> is_space (last ''sci-fi'')" by (simp_all add: is_space_def)
  with trim_keeps_word [of "''sci-fi''" "toLowerCase pre" "toLowerCase post"] l
  have "includes_str (trim (toLowerCase (pre @ w @ post))) ''sci-fi''"
    by (auto simp: includes_str_iff)
  then show ?thesis by (simp add: mockLLM_Parse_def)
qed

subsection \<open>The remote parse and its fallbacks\<close>



text \<open>The failures of the \<open>try\<close> block that do not depend on the shape of the value.\<close>

lemma try_generate_failures:
  "generateContent searchTerm = CallRejected \<Longrightarrow>
     try_generate JSON_parse generateContent searchTerm = Inl RemoteFailure"
  "generateContent searchTerm = Responded text \<Longrightarrow> \<not> truthy text \<Longrightarrow>
     try_generate JSON_parse generateContent searchTerm = Inl (Error no_text_message)"
  "generateContent searchTerm = Responded (Some t) \<Longrightarrow> t \<noteq> [] \<Longrightarrow> JSON_parse (trim t) = None \<Longrightarrow>
     try_generate JSON_parse generateContent searchTerm = Inl SyntaxError"
  by (auto simp: try_generate_def split: option.splits)

text \<open>Without a key the result is the heuristic's; with one, an exception ends in the plain search.\<close>

lemma realLLM_Parse_no_key:
  "\<not> truthy AI_API_KEY \<Longrightarrow>
   realLLM_Parse JSON_parse AI_API_KEY generateContent searchTerm =
     Inr (result_value (mockLLM_Parse searchTerm))"
  by (simp add: realLLM_Parse_def)

lemma realLLM_Parse_absorbs:
  "truthy AI_API_KEY \<Longrightarrow> try_generate JSON_parse generateContent searchTerm = Inl e \<Longrightarrow>
   realLLM_Parse JSON_parse AI_API_KEY generateContent searchTerm =
     Inr (result_value \<lparr>path = ''search/movie'', params = [(''query'', searchTerm)]\<rparr>)"
  by (simp add: realLLM_Parse_def)




lemma try_generate_invalid_shape:
  assumes "generateContent searchTerm = Responded (Some t)" and "t \<noteq> []"
    and "JSON_parse (trim t) = Some parsedResult"
    and "get_prop parsedResult ''path'' = Inr p" and "get_prop parsedResult ''params'' = Inr q"
    and "typeof p \<noteq> ''string'' \<or> typeof q \<noteq> ''object''"
  shows "try_generate JSON_parse generateContent searchTerm =
           Inl (Error ''AI response structure is invalid.'')"
  using assms by (auto simp: try_generate_def)




text \<open>
  Claim C4. A response whose \<open>params\<close> is not an object should end in the plain search
  for the search term. With a key set and the response text
  \<open>{"path":"search/movie","params":null}\<close>, the check of line 122 lets the value
  through, since \<open>typeof null\<close> is \<open>object\<close>: \<open>realLLM_Parse\<close> returns the parsed
  value, with \<open>params\<close> being \<open>null\<close>, and not the plain search for \<open>Dune\<close>.
\<close>

theorem realLLM_Parse_null_params:
  "realLLM_Parse JSON_parse_null_params (Some ''key'')
     (respond_text ''{\"path\":\"search/movie\",\"params\":null}'') ''Dune'' =
     Inr (JObject [(''path'', JString ''search/movie''), (''params'', JNull)]) \<and>
   realLLM_Parse JSON_parse_null_params (Some ''key'')
     (respond_text ''{\"path\":\"search/movie\",\"params\":null}'') ''Dune'' \<noteq>
     Inr (result_value \<lparr>path = ''search/movie'', params = [(''query'', ''Dune'')]\<rparr>)"
  by code_simp

section \<open>Properties of the catalog gateway\<close>

subsection \<open>Search parameters\<close>

lemma sp_get_filter_other:
  "k \<noteq> name \<Longrightarrow> sp_get (filter (\<lambda>e. fst e \<noteq> name) sp) k = sp_get sp k"
  by (induction sp) (auto simp: sp_get_def)

lemma sp_get_sp_set_same: "sp_get (sp_set name v sp) name = Some v"
  by (induction sp) (auto simp: sp_get_def)

lemma sp_get_sp_set_other: "k \<noteq> name \<Longrightarrow> sp_get (sp_set name v sp) k = sp_get sp k"
proof (induction sp)
  case Nil
  then show ?case by (simp add: sp_get_def)
next
  case (Cons e sp)
  obtain a b where e: "e = (a, b)" by (cases e)
  show ?case
  proof (cases "a = name")
    case True
    with Cons.prems e sp_get_filter_other [of k name sp] show ?thesis
      by (simp add: sp_get_def)
  next
    case False
    with Cons e show ?thesis by (simp add: sp_get_def)
  qed
qed

lemma sp_get_sp_set: "sp_get (sp_set name v sp) k = (if k = name then Some v else sp_get sp k)"
  by (simp add: sp_get_sp_set_same sp_get_sp_set_other)

lemma sp_get_copy_rest:
  "distinct (map fst es) \<Longrightarrow>
   sp_get (copy_rest es sp) k =
     (case map_of es k of
        None \<Rightarrow> sp_get sp k
      | Some v \<Rightarrow> if truthy_q v then Some (finalValue v) else sp_get sp k)"
proof (induction es arbitrary: sp)
  case Nil
  then show ?case by simp
next
  case (Cons e es)
  obtain a b where e: "e = (a, b)" by (cases e)
  from Cons.prems e have d: "distinct (map fst es)" and a: "a \<notin> fst ` set es" by auto
  from a have m: "map_of es a = None" by (simp add: map_of_eq_None_iff)
  show ?case
  proof (cases "k = a")
    case True
    with e m Cons.IH [OF d] show ?thesis by (simp add: sp_get_sp_set)
  next
    case False
    with e Cons.IH [OF d] show ?thesis by (simp add: sp_get_sp_set split: option.splits)
  qed
qed

lemma map_of_rest_of: "map_of (rest_of q) k = (if k = ''path'' then None else map_of q k)"
  by (induction q) (auto simp: rest_of_def)

lemma distinct_rest_of: "distinct (map fst q) \<Longrightarrow> distinct (map fst (rest_of q))"
  by (simp add: rest_of_def distinct_map_filter)

lemma sp_get_set_defaults:
  "sp_get (set_defaults sp) k =
     (if k = ''include_adult'' then Some ''false''
      else if k = ''page'' then Some ''1''
      else if k = ''language'' then Some ''en-US''
      else sp_get sp k)"
  by (simp add: set_defaults_def sp_get_sp_set)

lemma calls_relay:
  "calls (relay fetch token u) =
     [\<lparr>target = u, out_method = ''GET'',
       headers = [(''Authorization'', ''Bearer '' @ token), (''accept'', ''application/json'')]\<rparr>]"
  by (simp add: relay_def Let_def split: fetch_outcome.splits option.splits)

lemma handler_forwards:
  assumes "req_method req = ''GET''" and "TMDB_TOKEN = Some token" and "token \<noteq> []"
    and "map_of (query req) ''path'' = Some (Single p)" and "URL_new p = Some u"
  shows "handler URL_new TMDB_TOKEN fetch req =
           Inr (relay fetch token
                  (u\<lparr>searchParams :=
                       copy_rest (rest_of (query req)) (set_defaults (searchParams u))\<rparr>))"
  using assms by (simp add: handler_def)

subsection \<open>The first handler\<close>

text \<open>
  The first handler builds its URL from the path, the \<open>query\<close> parameter and the
  fixed parameters: whatever else the request carries does not reach the search
  parameters.
\<close>

lemma handler_1_forwards:
  assumes "req_method req = ''GET''" and "TMDB_TOKEN = Some token" and "token \<noteq> []"
    and "map_of (query req) ''path'' = Some (Single p)" and "URL_new p = Some u"
  shows "\<exists>sp. handler_1 URL_new TMDB_TOKEN fetch req =
           Inr (relay fetch token (u\<lparr>searchParams := set_defaults sp\<rparr>)) \<and>
           (\<forall>k. k \<noteq> ''query'' \<longrightarrow> sp_get sp k = sp_get (searchParams u) k)"
  using assms
  by (auto simp: handler_1_def sp_get_sp_set split: option.splits qvalue.splits)

subsection \<open>Order of the parameters\<close>

text \<open>
  Claim C3, as stated: the caller's parameters are copied first and the three fixed
  parameters are set after them, so that on a collision the fixed value is sent. The
  request \<open>path=discover/movie&page=2\<close> is sent on with \<open>page=2\<close>.
\<close>

theorem handler_caller_overrides_default:
  "outbound_params
     (handler URL_plain (Some ''token'') (fetch_answer \<lparr>status = 200, json_body = Some JNull\<rparr>)
        (get_request [(''path'', Single ''discover/movie''), (''page'', Single ''2'')])) =
     [[(''language'', ''en-US''), (''page'', ''2''), (''include_adult'', ''false'')]]"
  by code_simp

text \<open>
  Claim C3, amended. \<open>handler\<close> sets the three fixed parameters first and the
  caller's parameters after them. For each of the three keys, the outbound URL carries
  the caller's value when the request has that key with a non-empty value, and the fixed
  value \<open>en-US\<close>, \<open>1\<close> or \<open>false\<close> otherwise.
\<close>

theorem handler_defaults_then_caller:
  assumes "req_method req = ''GET''" and "TMDB_TOKEN = Some token" and "token \<noteq> []"
    and "map_of (query req) ''path'' = Some (Single p)" and "URL_new p = Some u"
    and "distinct (map fst (query req))"
    and "(k, d) \<in> {(''language'', ''en-US''), (''page'', ''1''), (''include_adult'', ''false'')}"
  shows "\<exists>h c. handler URL_new TMDB_TOKEN fetch req = Inr h \<and> calls h = [c] \<and>
           sp_get (searchParams (target c)) k =
             (case map_of (query req) k of
                None \<Rightarrow> Some d
              | Some v \<Rightarrow> if truthy_q v then Some (finalValue v) else Some d)"
proof -
  let ?sp = "copy_rest (rest_of (query req)) (set_defaults (searchParams u))"
  let ?h = "relay fetch token (u\<lparr>searchParams := ?sp\<rparr>)"
  have h: "handler URL_new TMDB_TOKEN fetch req = Inr ?h"
    using assms(1-5) by (rule handler_forwards)
  from assms(7) have k: "k \<noteq> ''path''" and d: "sp_get (set_defaults (searchParams u)) k = Some d"
    by (auto simp: sp_get_set_defaults)
  from k d have "sp_get ?sp k =
      (case map_of (query req) k of
         None \<Rightarrow> Some d
       | Some v \<Rightarrow> if truthy_q v then Some (finalValue v) else Some d)"
    by (simp add: sp_get_copy_rest [OF distinct_rest_of [OF assms(6)]] map_of_rest_of
      split: option.splits)
  with h show ?thesis by (simp add: calls_relay)
qed

theorem handler_defaults_then_caller_witness:
  "(\<exists>h c. handler URL_plain (Some ''token'') (fetch_answer \<lparr>status = 200, json_body = Some JNull\<rparr>)
            (get_request [(''path'', Single ''discover/movie''), (''page'', Single ''2'')]) = Inr h \<and>
          calls h = [c] \<and> sp_get (searchParams (target c)) ''page'' = Some ''2'') \<and>
   (\<exists>h c. handler URL_plain (Some ''token'') (fetch_answer \<lparr>status = 200, json_body = Some JNull\<rparr>)
            (get_request [(''path'', Single ''discover/movie''), (''page'', Single ''2'')]) = Inr h \<and>
          calls h = [c] \<and> sp_get (searchParams (target c)) ''language'' = Some ''en-US'')"
proof -
  let ?req = "get_request [(''path'', Single ''discover/movie''), (''page'', Single ''2'')]"
  let ?u = "\<lparr>address = ''https://api.themoviedb.org/3/discover/movie'', searchParams = []\<rparr>"
  have m: "req_method ?req = ''GET''" by (simp add: get_request_def)
  have t: "''token'' \<noteq> []" by simp
  have p: "map_of (query ?req) ''path'' = Some (Single ''discover/movie'')"
    by (simp add: get_request_def)
  have u: "URL_plain ''discover/movie'' = Some ?u" by (simp add: URL_plain_def)
  have d: "distinct (map fst (query ?req))" by (simp add: get_request_def)
  have k1: "(''page'', ''1'') \<in> {(''language'', ''en-US''), (''page'', ''1''), (''include_adult'', ''false'')}"
    by simp
  have k2: "(''language'', ''en-US'') \<in> {(''language'', ''en-US''), (''page'', ''1''), (''include_adult'', ''false'')}"
    by simp
  have q1: "map_of (query ?req) ''page'' = Some (Single ''2'')" by (simp add: get_request_def)
  have q2: "map_of (query ?req) ''language'' = None" by (simp add: get_request_def)
  note w = handler_defaults_then_caller [where URL_new = URL_plain and req = ?req
      and fetch = "fetch_answer \<lparr>status = 200, json_body = Some JNull\<rparr>", OF m refl t p u d]
  from w [OF k1] q1 w [OF k2] q2 show ?thesis by simp
qed

subsection \<open>Copying the caller's parameters\<close>

text \<open>
  Claim C7, as stated: no incoming parameter is omitted from the outbound request. The
  request \<open>path=search/movie&query=\<close>, whose \<open>query\<close> is the empty string, is sent
  on without a \<open>query\<close> parameter: line 96 skips a falsy value.
\<close>

theorem handler_omits_empty_value:
  "outbound_params
     (handler URL_plain (Some ''token'') (fetch_answer \<lparr>status = 200, json_body = Some JNull\<rparr>)
        (get_request [(''path'', Single ''search/movie''), (''query'', Single [])])) =
     [[(''language'', ''en-US''), (''page'', ''1''), (''include_adult'', ''false'')]]"
  by code_simp

text \<open>
  Claim C7, amended. For a request with a string path that the URL constructor accepts
  and a credential set, every incoming parameter other than \<open>path\<close> whose value is
  not the empty string is in the outbound URL: with its value when that is a string,
  with the first element when it is a list (\<open>finalValue\<close>).
\<close>

theorem handler_copies_params:
  assumes "req_method req = ''GET''" and "TMDB_TOKEN = Some token" and "token \<noteq> []"
    and "map_of (query req) ''path'' = Some (Single p)" and "URL_new p = Some u"
    and "distinct (map fst (query req))"
    and "(k, v) \<in> set (query req)" and "k \<noteq> ''path''" and "truthy_q v"
  shows "\<exists>h c. handler URL_new TMDB_TOKEN fetch req = Inr h \<and> calls h = [c] \<and>
           sp_get (searchParams (target c)) k = Some (finalValue v)"
proof -
  let ?sp = "copy_rest (rest_of (query req)) (set_defaults (searchParams u))"
  let ?h = "relay fetch token (u\<lparr>searchParams := ?sp\<rparr>)"
  have h: "handler URL_new TMDB_TOKEN fetch req = Inr ?h"
    using assms(1-5) by (rule handler_forwards)
  from assms(6,7) have "map_of (query req) k = Some v" by simp
  with assms(8,9) have "sp_get ?sp k = Some (finalValue v)"
    by (simp add: sp_get_copy_rest [OF distinct_rest_of [OF assms(6)]] map_of_rest_of)
  with h show ?thesis by (simp add: calls_relay)
qed

theorem handler_copies_params_witness:
  "(''with_genres'', Multi [''878'', ''18'']) \<in>
     set (query (get_request [(''path'', Single ''discover/movie''),
                              (''with_genres'', Multi [''878'', ''18''])])) \<and>
   (\<exists>h c. handler URL_plain (Some ''token'') (fetch_answer \<lparr>status = 200, json_body = Some JNull\<rparr>)
            (get_request [(''path'', Single ''discover/movie''),
                          (''with_genres'', Multi [''878'', ''18''])]) = Inr h \<and>
          calls h = [c] \<and> sp_get (searchParams (target c)) ''with_genres'' = Some ''878'')"
proof -
  let ?req = "get_request [(''path'', Single ''discover/movie''),
                           (''with_genres'', Multi [''878'', ''18''])]"
  let ?u = "\<lparr>address = ''https://api.themoviedb.org/3/discover/movie'', searchParams = []\<rparr>"
  have m: "req_method ?req = ''GET''" by (simp add: get_request_def)
  have t: "''token'' \<noteq> []" by simp
  have p: "map_of (query ?req) ''path'' = Some (Single ''discover/movie'')"
    by (simp add: get_request_def)
  have u: "URL_plain ''discover/movie'' = Some ?u" by (simp add: URL_plain_def)
  have d: "distinct (map fst (query ?req))" by (simp add: get_request_def)
  have e: "(''with_genres'', Multi [''878'', ''18'']) \<in> set (query ?req)"
    by (simp add: get_request_def)
  have n: "''with_genres'' \<noteq> ''path''" by simp
  have v: "truthy_q (Multi [''878'', ''18''])" by simp
  from e handler_copies_params [where URL_new = URL_plain and req = ?req
      and fetch = "fetch_answer \<lparr>status = 200, json_body = Some JNull\<rparr>", OF m refl t p u d e n v]
  show ?thesis by simp
qed

subsection \<open>Relaying the provider's answer\<close>

text \<open>
  Claim C8, as stated: whenever the provider answers with a non-success status, the
  gateway answers with the same status. A provider that answers 404 with a body that is
  not JSON gets the status 500 of the \<open>catch\<close> clause: the body is parsed before the
  status is read.
\<close>

theorem handler_non_json_error:
  "handler URL_plain (Some ''token'') (fetch_answer \<lparr>status = 404, json_body = None\<rparr>)
     (get_request [(''path'', Single ''movie/0'')]) =
   Inr \<lparr>response =
          \<lparr>res_status = 500,
           res_body = message ''Server network error when connecting to TMDB.''\<rparr>,
        calls =
          [\<lparr>target =
              \<lparr>address = ''https://api.themoviedb.org/3/movie/0'',
               searchParams =
                 [(''language'', ''en-US''), (''page'', ''1''), (''include_adult'', ''false'')]\<rparr>,
            out_method = ''GET'',
            headers = [(''Authorization'', ''Bearer token''), (''accept'', ''application/json'')]\<rparr>]\<rparr>"
  by code_simp

text \<open>
  Claim C8, amended. When the provider answers with a non-success status and a body
  that is JSON, the gateway's response has the provider's status, and its body has the
  provider's payload under \<open>details\<close>, beside the message.
\<close>

theorem handler_relays_status:
  assumes "req_method req = ''GET''" and "TMDB_TOKEN = Some token" and "token \<noteq> []"
    and "map_of (query req) ''path'' = Some (Single p)" and "URL_new p = Some u"
    and "\<And>call. fetch call = Answered r" and "\<not> ok r" and "json_body r = Some data"
  shows "\<exists>h. handler URL_new TMDB_TOKEN fetch req = Inr h \<and>
           response h =
             \<lparr>res_status = status r,
              res_body =
                JObject [(''message'',
                          JString (''TMDB API failed with status ''
                                   @ string_of_nat (status r) @ ''.'')),
                         (''details'', data)]\<rparr>"
proof -
  let ?sp = "copy_rest (rest_of (query req)) (set_defaults (searchParams u))"
  let ?h = "relay fetch token (u\<lparr>searchParams := ?sp\<rparr>)"
  have h: "handler URL_new TMDB_TOKEN fetch req = Inr ?h"
    using assms(1-5) by (rule handler_forwards)
  from assms(6-8) have "response ?h =
      \<lparr>res_status = status r,
       res_body =
         JObject [(''message'',
                   JString (''TMDB API failed with status ''
                            @ string_of_nat (status r) @ ''.'')),
                  (''details'', data)]\<rparr>"
    by (simp add: relay_def Let_def)
  with h show ?thesis by simp
qed

theorem handler_relays_status_witness:
  "\<not> ok \<lparr>status = 404, json_body = Some (JObject [(''status_code'', JNumber ''34'')])\<rparr> \<and>
   (\<exists>h. handler URL_plain (Some ''token'')
           (fetch_answer \<lparr>status = 404, json_body = Some (JObject [(''status_code'', JNumber ''34'')])\<rparr>)
           (get_request [(''path'', Single ''movie/0'')]) = Inr h \<and>
        res_status (response h) = 404 \<and>
        get_prop (res_body (response h)) ''details'' =
          Inr (Some (JObject [(''status_code'', JNumber ''34'')])))"
proof -
  let ?r = "\<lparr>status = 404, json_body = Some (JObject [(''status_code'', JNumber ''34'')])\<rparr>"
  let ?req = "get_request [(''path'', Single ''movie/0'')]"
  let ?u = "\<lparr>address = ''https://api.themoviedb.org/3/movie/0'', searchParams = []\<rparr>"
  have m: "req_method ?req = ''GET''" by (simp add: get_request_def)
  have t: "''token'' \<noteq> []" by simp
  have p: "map_of (query ?req) ''path'' = Some (Single ''movie/0'')"
    by (simp add: get_request_def)
  have u: "URL_plain ''movie/0'' = Some ?u" by (simp add: URL_plain_def)
  have f: "\<And>call. fetch_answer ?r call = Answered ?r" by (simp add: fetch_answer_def)
  have n: "\<not> ok ?r" by (simp add: ok_def)
  have b: "json_body ?r = Some (JObject [(''status_code'', JNumber ''34'')])" by simp
  from n handler_relays_status [where URL_new = URL_plain and req = ?req
      and fetch = "fetch_answer ?r", OF m refl t p u f n b]
  show ?thesis by auto
qed

subsection \<open>The missing credential\<close>

text \<open>
  Claim C9. When the credential is unset (or empty), \<open>handler\<close> answers every GET
  request with status 500 and the configuration-error message, and makes no outbound
  call, whatever the parameters of the request are.
\<close>

theorem handler_no_credential:
  assumes "req_method req = ''GET''" and "\<not> truthy TMDB_TOKEN"
  shows "handler URL_new TMDB_TOKEN fetch req =
           Inr \<lparr>response =
                  \<lparr>res_status = 500,
                   res_body = message ''Server configuration error: TMDB_ACCESS_TOKEN is missing.''\<rparr>,
                calls = []\<rparr>"
  using assms by (cases TMDB_TOKEN) (simp_all add: handler_def config_error_def)

theorem handler_no_credential_witness:
  "\<not> truthy None \<and>
   handler URL_plain None (fetch_answer \<lparr>status = 200, json_body = Some JNull\<rparr>)
     (get_request [(''path'', Single ''movie/popular''), (''page'', Single ''3'')]) =
   Inr \<lparr>response =
          \<lparr>res_status = 500,
           res_body = message ''Server configuration error: TMDB_ACCESS_TOKEN is missing.''\<rparr>,
        calls = []\<rparr>"
proof -
  have m: "req_method (get_request [(''path'', Single ''movie/popular''), (''page'', Single ''3'')]) = ''GET''"
    by (simp add: get_request_def)
  have n: "\<not> truthy None" by simp
  from n handler_no_credential [where URL_new = URL_plain
      and fetch = "fetch_answer \<lparr>status = 200, json_body = Some JNull\<rparr>", OF m n]
  show ?thesis by (rule conjI)
qed

end
